theory Spec2Isabelle
  imports Complex_Main
begin

section \<open>The itinerary core of app.py\<close>

text \<open>
  The development embeds \<^verbatim>\<open>haversine_km\<close>, \<^verbatim>\<open>travel_time_between\<close>,
  \<^verbatim>\<open>score_poi\<close> and \<^verbatim>\<open>build_greedy_itinerary\<close> of \<^verbatim>\<open>src/app.py\<close>.

  Numbers. Python's \<^verbatim>\<open>float\<close> and \<^verbatim>\<open>int\<close> values are read as the real numbers they
  denote (type \<open>real\<close>). The rounding of binary floating point is not part of the model,
  with one exception: \<open>haversine_km_rounded\<close> takes the rounding error of the haversine
  intermediate as an argument.
  The only exception the arithmetic of these functions can raise is the
  \<^verbatim>\<open>ValueError: math domain error\<close> of \<^verbatim>\<open>math.sqrt\<close> and \<^verbatim>\<open>math.asin\<close>; it is a value
  of the result type \<open>error + 'a\<close>.
\<close>

subsection \<open>Errors and the math library\<close>

datatype error = ValueError

definition radians :: "real \<Rightarrow> real" where
  \<comment> \<open>\<^verbatim>\<open>math.radians\<close>\<close>
  "radians x = x * (pi / 180)"

definition py_sqrt :: "real \<Rightarrow> error + real" where
  \<comment> \<open>\<^verbatim>\<open>math.sqrt\<close>: raises on a negative argument\<close>
  "py_sqrt x = (if x < 0 then Inl ValueError else Inr (sqrt x))"

definition py_asin :: "real \<Rightarrow> error + real" where
  \<comment> \<open>\<^verbatim>\<open>math.asin\<close>: raises outside \<open>[-1, 1]\<close>\<close>
  "py_asin x = (if x < - 1 \<or> 1 < x then Inl ValueError else Inr (arcsin x))"

subsection \<open>haversine\_km (lines 81-88)\<close>

definition hav_a :: "real \<Rightarrow> real \<Rightarrow> real \<Rightarrow> real \<Rightarrow> real" where
  \<comment> \<open>lines 82-85: the intermediate \<^verbatim>\<open>a\<close>\<close>
  "hav_a lat1 lon1 lat2 lon2 =
     (let lon1' = radians lon1; lat1' = radians lat1;
          lon2' = radians lon2; lat2' = radians lat2;
          dlon = lon2' - lon1';
          dlat = lat2' - lat1'
      in (sin (dlat / 2))\<^sup>2 + cos lat1' * cos lat2' * (sin (dlon / 2))\<^sup>2)"

definition km_of_a :: "real \<Rightarrow> error + real" where
  \<comment> \<open>lines 86-88: \<^verbatim>\<open>c = 2 * asin(min(1, sqrt(a))); km = 6371 * c\<close>\<close>
  "km_of_a a =
     (case py_sqrt a of
        Inl e \<Rightarrow> Inl e
      | Inr s \<Rightarrow>
          (case py_asin (min 1 s) of
             Inl e \<Rightarrow> Inl e
           | Inr t \<Rightarrow> (let c = 2 * t; km = 6371 * c in Inr km)))"

definition haversine_km :: "real \<Rightarrow> real \<Rightarrow> real \<Rightarrow> real \<Rightarrow> error + real" where
  "haversine_km lat1 lon1 lat2 lon2 = km_of_a (hav_a lat1 lon1 lat2 lon2)"


text \<open>
  The number \<^verbatim>\<open>haversine_km\<close> returns, as a plain real: used to state results
  without unfolding the trigonometry.
\<close>

definition great_circle_km :: "real \<Rightarrow> real \<Rightarrow> real \<Rightarrow> real \<Rightarrow> real" where
  "great_circle_km lat1 lon1 lat2 lon2 =
     6371 * (2 * arcsin (sqrt (hav_a lat1 lon1 lat2 lon2)))"

subsection \<open>travel\_time\_between (lines 90-104)\<close>

text \<open>
  The request to the routing service is the one effect of the core. Its outcome is an
  input of the model: \<open>Duration d\<close> when \<^verbatim>\<open>r.json()["routes"][0]["duration"]\<close> is
  the number \<open>d\<close> (seconds), \<open>Failed\<close> when anything inside the \<^verbatim>\<open>try\<close> block raises
  (timeout, connection error, malformed body, missing key, non-numeric duration), which
  the \<^verbatim>\<open>except Exception\<close> clause catches.
\<close>

datatype response = Failed | Duration real

definition travel_time_between ::
  "response \<Rightarrow> real \<Rightarrow> real \<Rightarrow> real \<Rightarrow> real \<Rightarrow> string \<Rightarrow> error + real" where
  "travel_time_between r lat1 lon1 lat2 lon2 mode =
     (case r of
        Duration d \<Rightarrow> Inr (d / 60)
      | Failed \<Rightarrow>
          (case haversine_km lat1 lon1 lat2 lon2 of
             Inl e \<Rightarrow> Inl e
           | Inr dist' \<Rightarrow>
               (let speed = (if mode = ''foot'' then 5 else 40)
                in Inr ((dist' / speed) * 60))))"

subsection \<open>POI records and score\_poi (lines 107-114)\<close>

text \<open>
  A POI is a dictionary decoded from JSON. The record keeps the keys the core reads;
  \<open>None\<close> is an absent key (for the coordinates also a \<^verbatim>\<open>null\<close>, which \<^verbatim>\<open>.get\<close>
  does not tell apart). \<open>poi_point\<close> is the nested \<^verbatim>\<open>"point"\<close> dictionary,
  \<open>poi_lat\<close> and \<open>poi_lon\<close> the flat \<^verbatim>\<open>"lat"\<close> and \<^verbatim>\<open>"lon"\<close> keys, \<open>poi_rate\<close> the
  \<^verbatim>\<open>"rate"\<close> key. Values of another JSON type (a string for a coordinate, say) are
  outside the record type.
\<close>

record point =
  pt_lat :: "real option"
  pt_lon :: "real option"

record poi =
  poi_point :: "point option"
  poi_lat :: "real option"
  poi_lon :: "real option"
  poi_rate :: "real option"
  poi_name :: "string option"
  poi_kinds :: "string option"

definition py_or :: "real option \<Rightarrow> real option \<Rightarrow> real option" where
  \<comment> \<open>\<^verbatim>\<open>x or y\<close> on a number or \<^verbatim>\<open>None\<close>: \<^verbatim>\<open>None\<close> and zero are falsy\<close>
  "py_or x y = (case x of None \<Rightarrow> y | Some v \<Rightarrow> if v = 0 then y else Some v)"

definition point_get :: "poi \<Rightarrow> (point \<Rightarrow> real option) \<Rightarrow> real option" where
  \<comment> \<open>\<^verbatim>\<open>poi.get("point", {}).get(key)\<close>\<close>
  "point_get p key = (case poi_point p of None \<Rightarrow> None | Some pt \<Rightarrow> key pt)"

definition get_lat :: "poi \<Rightarrow> real option" where
  \<comment> \<open>lines 108 and 120\<close>
  "get_lat p = py_or (point_get p pt_lat) (poi_lat p)"

definition get_lon :: "poi \<Rightarrow> real option" where
  \<comment> \<open>lines 109 and 121\<close>
  "get_lon p = py_or (point_get p pt_lon) (poi_lon p)"

definition score_poi :: "poi \<Rightarrow> real \<Rightarrow> real \<Rightarrow> error + real" where
  "score_poi p origin_lat origin_lon =
     (case get_lat p of
        None \<Rightarrow> Inr 0
      | Some la \<Rightarrow>
          (case get_lon p of
             None \<Rightarrow> Inr 0
           | Some lo \<Rightarrow>
               (case haversine_km origin_lat origin_lon la lo of
                  Inl e \<Rightarrow> Inl e
                | Inr dist_km \<Rightarrow>
                    (let popularity = (case poi_rate p of None \<Rightarrow> 0 | Some r \<Rightarrow> r)
                     in Inr ((popularity * 2) - dist_km)))))"

subsection \<open>build\_greedy\_itinerary (lines 116-166)\<close>

text \<open>
  A candidate is a POI with the three keys the first loop adds to it:
  \<open>us_lat\<close>, \<open>us_lon\<close> and \<open>us_score\<close> stand for \<^verbatim>\<open>"_lat"\<close>, \<^verbatim>\<open>"_lon"\<close> and
  \<^verbatim>\<open>"_score"\<close>.
\<close>

record cand =
  c_poi :: poi
  us_lat :: real
  us_lon :: real
  us_score :: real

fun prepare :: "poi list \<Rightarrow> real \<Rightarrow> real \<Rightarrow> error + cand list" where
  \<comment> \<open>lines 118-126: the loop that fills \<^verbatim>\<open>poi_list\<close>\<close>
  "prepare [] start_lat start_lon = Inr []"
| "prepare (p # ps) start_lat start_lon =
     (case get_lat p of
        None \<Rightarrow> prepare ps start_lat start_lon
      | Some la \<Rightarrow>
          (case get_lon p of
             None \<Rightarrow> prepare ps start_lat start_lon
           | Some lo \<Rightarrow>
               (case score_poi p start_lat start_lon of
                  Inl e \<Rightarrow> Inl e
                | Inr sc \<Rightarrow>
                    (case prepare ps start_lat start_lon of
                       Inl e \<Rightarrow> Inl e
                     | Inr rest \<Rightarrow>
                         Inr (\<lparr>c_poi = p, us_lat = la, us_lon = lo, us_score = sc\<rparr> # rest)))))"

definition sorted_by_score :: "cand list \<Rightarrow> cand list" where
  \<comment> \<open>line 127: \<^verbatim>\<open>sorted(poi_list, key=lambda x: -x["_score"])\<close>. Python's \<^verbatim>\<open>sorted\<close>
      is a stable sort; the stable sort of a list is unique, and \<open>sort_key\<close> computes it.\<close>
  "sorted_by_score poi_list = sort_key (\<lambda>x. - us_score x) poi_list"

definition round1 :: "real \<Rightarrow> real" where
  \<comment> \<open>\<^verbatim>\<open>round(x, 1)\<close>: the nearest multiple of one tenth, a tie going to the even one\<close>
  "round1 x =
     (let y = x * 10; f = \<lfloor>y\<rfloor>; r = y - of_int f
      in (if r < 1 / 2 then of_int f
          else if 1 / 2 < r then of_int (f + 1)
          else if even f then of_int f else of_int (f + 1)) / 10)"

record visit =
  v_name :: "string option"
  v_lat :: real
  v_lon :: real
  travel_min :: real
  visit_min :: real
  desc :: "string option"

record day_plan =
  day :: int
  items :: "visit list"
  minutes_left :: real

record itinerary =
  it_days :: "day_plan list"  \<comment> \<open>the key \<^verbatim>\<open>"days"\<close>\<close>

text \<open>
  The variables of the packing loop: \<open>day_no\<close> is the local variable \<^verbatim>\<open>day\<close>,
  \<open>itin\<close> the list \<^verbatim>\<open>itinerary["days"]\<close>, \<open>calls\<close> the number of routing requests
  made so far (request \<open>n\<close> receives \<open>net n\<close>). A day dictionary is not written to
  after it has been appended to \<^verbatim>\<open>itinerary["days"]\<close>, so the list holds values.
\<close>

record state =
  current_lat :: real
  current_lon :: real
  day_no :: int
  current_day :: day_plan
  itin :: "day_plan list"
  calls :: nat

datatype 'a flow = Continue 'a | Break 'a

definition append_visit :: "cand \<Rightarrow> real \<Rightarrow> real \<Rightarrow> state \<Rightarrow> state" where
  \<comment> \<open>lines 136-145 and again lines 154-163\<close>
  "append_visit p travel visit st =
     st\<lparr>current_day :=
          (current_day st)
            \<lparr>items := items (current_day st) @
               [\<lparr>v_name = poi_name (c_poi p), v_lat = us_lat p, v_lon = us_lon p,
                 travel_min = round1 travel, visit_min = visit,
                 desc = poi_kinds (c_poi p)\<rparr>],
             minutes_left := minutes_left (current_day st) - (travel + visit)\<rparr>,
        current_lat := us_lat p,
        current_lon := us_lon p\<rparr>"

definition step ::
  "(nat \<Rightarrow> response) \<Rightarrow> real \<Rightarrow> real \<Rightarrow> int \<Rightarrow> real \<Rightarrow> string \<Rightarrow> cand \<Rightarrow> state
     \<Rightarrow> error + state flow" where
  \<comment> \<open>lines 132-163: the body of the packing loop for one candidate\<close>
  "step net start_lat start_lon days hours_per_day mode p st =
     (case travel_time_between (net (calls st)) (current_lat st) (current_lon st)
             (us_lat p) (us_lon p) mode of
        Inl e \<Rightarrow> Inl e
      | Inr travel \<Rightarrow>
          (let visit = 60;
               total_needed = travel + visit;
               st1 = st\<lparr>calls := calls st + 1\<rparr>
           in if total_needed \<le> minutes_left (current_day st1)
              then Inr (Continue (append_visit p travel visit st1))
              else
                (let st2 = st1\<lparr>itin := itin st1 @ [current_day st1], day_no := day_no st1 + 1\<rparr>
                 in if days < day_no st2 then Inr (Break st2)
                    else
                      (let st3 = st2\<lparr>current_day :=
                                   \<lparr>day = day_no st2, items = [],
                                    minutes_left = hours_per_day * 60\<rparr>\<rparr>
                       in case travel_time_between (net (calls st3)) start_lat start_lon
                                 (us_lat p) (us_lon p) mode of
                            Inl e \<Rightarrow> Inl e
                          | Inr travel' \<Rightarrow>
                              (let st4 = st3\<lparr>calls := calls st3 + 1\<rparr>
                               in if travel' + visit \<le> minutes_left (current_day st4)
                                  then Inr (Continue (append_visit p travel' visit st4))
                                  else Inr (Continue st4))))))"

fun pack ::
  "(nat \<Rightarrow> response) \<Rightarrow> real \<Rightarrow> real \<Rightarrow> int \<Rightarrow> real \<Rightarrow> string \<Rightarrow> cand list \<Rightarrow> state
     \<Rightarrow> error + state" where
  \<comment> \<open>line 131: \<^verbatim>\<open>for p in poi_list\<close>, left by \<^verbatim>\<open>break\<close> or at the end of the list\<close>
  "pack net start_lat start_lon days hours_per_day mode [] st = Inr st"
| "pack net start_lat start_lon days hours_per_day mode (p # ps) st =
     (case step net start_lat start_lon days hours_per_day mode p st of
        Inl e \<Rightarrow> Inl e
      | Inr (Break st') \<Rightarrow> Inr st'
      | Inr (Continue st') \<Rightarrow> pack net start_lat start_lon days hours_per_day mode ps st')"

definition initial_state :: "real \<Rightarrow> real \<Rightarrow> real \<Rightarrow> state" where
  \<comment> \<open>lines 117 and 128-130\<close>
  "initial_state start_lat start_lon hours_per_day =
     \<lparr>current_lat = start_lat, current_lon = start_lon, day_no = 1,
      current_day = \<lparr>day = 1, items = [], minutes_left = hours_per_day * 60\<rparr>,
      itin = [], calls = 0\<rparr>"

definition finish :: "state \<Rightarrow> itinerary" where
  \<comment> \<open>lines 164-166\<close>
  "finish st =
     \<lparr>it_days = (if items (current_day st) \<noteq> [] then itin st @ [current_day st]
                 else itin st)\<rparr>"

definition build_greedy_itinerary ::
  "(nat \<Rightarrow> response) \<Rightarrow> poi list \<Rightarrow> real \<Rightarrow> real \<Rightarrow> int \<Rightarrow> real \<Rightarrow> string
     \<Rightarrow> error + itinerary" where
  "build_greedy_itinerary net pois start_lat start_lon days hours_per_day mode =
     (case prepare pois start_lat start_lon of
        Inl e \<Rightarrow> Inl e
      | Inr poi_list \<Rightarrow>
          (case pack net start_lat start_lon days hours_per_day mode
                  (sorted_by_score poi_list)
                  (initial_state start_lat start_lon hours_per_day) of
             Inl e \<Rightarrow> Inl e
           | Inr st \<Rightarrow> Inr (finish st)))"

subsection \<open>Quantities of the specification and example inputs\<close>

definition scheduled_minutes :: "day_plan \<Rightarrow> real" where
  \<comment> \<open>\<^verbatim>\<open>sum(visit.travel_min + visit.visit_min for visit in day.items)\<close>, on the stored
      fields\<close>
  "scheduled_minutes d = sum_list (map (\<lambda>v. travel_min v + visit_min v) (items d))"

definition day_ok :: "real \<Rightarrow> day_plan \<Rightarrow> bool" where
  \<comment> \<open>the budget of one day, with the rounding of the stored travel times\<close>
  "day_ok h d \<longleftrightarrow>
     (items d = [] \<longrightarrow> minutes_left d = h * 60)
     \<and> (items d \<noteq> [] \<longrightarrow> 0 \<le> minutes_left d)
     \<and> \<bar>scheduled_minutes d + minutes_left d - h * 60\<bar> \<le> real (length (items d)) / 20"

definition day_spent :: "real \<Rightarrow> day_plan \<Rightarrow> bool" where
  \<comment> \<open>every visit has taken at least its 60 minutes from the budget\<close>
  "day_spent h d \<longleftrightarrow> minutes_left d + 60 * real (length (items d)) \<le> h * 60"

definition state_all :: "(day_plan \<Rightarrow> bool) \<Rightarrow> state \<Rightarrow> bool" where
  \<comment> \<open>a property of the open day and of every day already in \<^verbatim>\<open>itinerary["days"]\<close>\<close>
  "state_all P st \<longleftrightarrow> P (current_day st) \<and> (\<forall>d \<in> set (itin st). P d)"

definition day_only_a :: day_plan where
  \<comment> \<open>day 1 holding the one visit of A, reached in ten minutes, with two hours\<close>
  "day_only_a =
     \<lparr>day = 1,
      items =
        [\<lparr>v_name = Some ''A'', v_lat = 1, v_lon = 1, travel_min = 10, visit_min = 60,
          desc = None\<rparr>],
      minutes_left = 50\<rparr>"

definition day_rounding :: day_plan where
  \<comment> \<open>the day built from \<open>net_rounding\<close> with four hours\<close>
  "day_rounding =
     \<lparr>day = 1,
      items =
        [\<lparr>v_name = Some ''A'', v_lat = 1, v_lon = 1, travel_min = 20, visit_min = 60,
          desc = None\<rparr>,
         \<lparr>v_name = Some ''B'', v_lat = 1, v_lon = 1, travel_min = 20, visit_min = 60,
          desc = None\<rparr>,
         \<lparr>v_name = Some ''C'', v_lat = 1, v_lon = 1, travel_min = 201 / 10, visit_min = 60,
          desc = None\<rparr>],
      minutes_left = 1 / 50\<rparr>"

definition nonneg_durations :: "(nat \<Rightarrow> response) \<Rightarrow> bool" where
  \<comment> \<open>the routing service reports no negative duration\<close>
  "nonneg_durations net \<longleftrightarrow> (\<forall>n d. net n = Duration d \<longrightarrow> 0 \<le> d)"

definition example_poi :: "string \<Rightarrow> real \<Rightarrow> poi" where
  \<comment> \<open>a POI at \<open>(1, 1)\<close> in the nested shape, with a name and a rate\<close>
  "example_poi n r =
     \<lparr>poi_point = Some \<lparr>pt_lat = Some 1, pt_lon = Some 1\<rparr>, poi_lat = None, poi_lon = None,
      poi_rate = Some r, poi_name = Some n, poi_kinds = None\<rparr>"

definition poi_equator :: poi where
  \<comment> \<open>a POI on the equator, at \<open>(0, 10)\<close>, in the nested shape only\<close>
  "poi_equator =
     \<lparr>poi_point = Some \<lparr>pt_lat = Some 0, pt_lon = Some 10\<rparr>, poi_lat = None, poi_lon = None,
      poi_rate = Some 3, poi_name = Some ''Equator'', poi_kinds = None\<rparr>"

definition net_down :: "nat \<Rightarrow> response" where
  \<comment> \<open>every routing request fails\<close>
  "net_down n = Failed"

definition net_one_minute :: "nat \<Rightarrow> response" where
  \<comment> \<open>every route takes 60 seconds\<close>
  "net_one_minute n = Duration 60"

definition net_ten_then_hundred :: "nat \<Rightarrow> response" where
  \<comment> \<open>the first route takes 10 minutes, every later one 100 minutes\<close>
  "net_ten_then_hundred n = (if n = 0 then Duration 600 else Duration 6000)"

definition net_rounding :: "nat \<Rightarrow> response" where
  \<comment> \<open>19.96, 19.96 and then 20.06 minutes\<close>
  "net_rounding n = (if n < 2 then Duration (5988 / 5) else Duration (6018 / 5))"

definition poi_at :: "string \<Rightarrow> real \<Rightarrow> real \<Rightarrow> real \<Rightarrow> poi" where
  \<comment> \<open>a POI in the nested shape, with a name, a latitude, a longitude and a rate\<close>
  "poi_at n la lo r =
     \<lparr>poi_point = Some \<lparr>pt_lat = Some la, pt_lon = Some lo\<rparr>, poi_lat = None, poi_lon = None,
      poi_rate = Some r, poi_name = Some n, poi_kinds = None\<rparr>"

definition net_route_then_down :: "nat \<Rightarrow> response" where
  \<comment> \<open>the first route takes 10 minutes, then the service is down\<close>
  "net_route_then_down n = (if n = 0 then Duration 600 else Failed)"

definition day_q :: day_plan where
  \<comment> \<open>day 1: Q, reached by a route of ten minutes, with two hours\<close>
  "day_q =
     \<lparr>day = 1,
      items =
        [\<lparr>v_name = Some ''Q'', v_lat = 1001 / 100, v_lon = 20, travel_min = 10,
          visit_min = 60, desc = None\<rparr>],
      minutes_left = 50\<rparr>"

definition day_p :: day_plan where
  \<comment> \<open>day 2: P, which lies at the trip origin \<open>(10, 20)\<close>, reached in no time\<close>
  "day_p =
     \<lparr>day = 2,
      items =
        [\<lparr>v_name = Some ''P'', v_lat = 10, v_lon = 20, travel_min = 0,
          visit_min = 60, desc = None\<rparr>],
      minutes_left = 60\<rparr>"

definition cand_q :: cand where
  \<comment> \<open>the candidates of Q, P and R as the first loop builds them from the origin \<open>(10, 20)\<close>\<close>
  "cand_q = \<lparr>c_poi = poi_at ''Q'' (1001 / 100) 20 3, us_lat = 1001 / 100, us_lon = 20,
            us_score = 3 * 2 - 6371 * pi / 18000\<rparr>"

definition cand_p :: cand where
  "cand_p = \<lparr>c_poi = poi_at ''P'' 10 20 1, us_lat = 10, us_lon = 20, us_score = 1 * 2 - 0\<rparr>"

definition cand_r :: cand where
  "cand_r = \<lparr>c_poi = poi_at ''R'' 11 20 7, us_lat = 11, us_lon = 20,
            us_score = 7 * 2 - 6371 * pi / 180\<rparr>"

section \<open>Properties\<close>

subsection \<open>Facts about haversine\_km\<close>

lemma sin_half_sq: "(sin (x / 2))\<^sup>2 = (1 - cos x) / (2::real)"
proof -
  have "cos x = cos (2 * (x / 2))" by simp
  also have "\<dots> = 1 - 2 * (sin (x / 2))\<^sup>2" by (rule cos_double_sin)
  finally show ?thesis by simp
qed

lemma hav_a_convex:
  fixes p1 p2 l :: real
  defines "s \<equiv> (sin (l / 2))\<^sup>2"
  shows "(sin ((p2 - p1) / 2))\<^sup>2 + cos p1 * cos p2 * s
         = (1 - s) * ((1 - cos (p2 - p1)) / 2) + s * ((1 + cos (p1 + p2)) / 2)"
  unfolding sin_half_sq [of "p2 - p1"] cos_diff cos_add
  by (simp add: field_simps)

lemma convex_unit:
  fixes s u v :: real
  assumes "0 \<le> s" "s \<le> 1" "0 \<le> u" "u \<le> 1" "0 \<le> v" "v \<le> 1"
  shows "0 \<le> (1 - s) * u + s * v" and "(1 - s) * u + s * v \<le> 1"
proof -
  show "0 \<le> (1 - s) * u + s * v" using assms by simp
  have "(1 - s) * u \<le> (1 - s) * 1" using assms by (intro mult_left_mono) auto
  moreover have "s * v \<le> s * 1" using assms by (intro mult_left_mono) auto
  ultimately show "(1 - s) * u + s * v \<le> 1" by simp
qed

lemma hav_a_range: "0 \<le> hav_a lat1 lon1 lat2 lon2" "hav_a lat1 lon1 lat2 lon2 \<le> 1"
proof -
  define p1 where "p1 = radians lat1"
  define p2 where "p2 = radians lat2"
  define l where "l = radians lon2 - radians lon1"
  define s where "s = (sin (l / 2))\<^sup>2"
  define u where "u = (1 - cos (p2 - p1)) / 2"
  define v where "v = (1 + cos (p1 + p2)) / 2"
  have a: "hav_a lat1 lon1 lat2 lon2 = (1 - s) * u + s * v"
    unfolding hav_a_def Let_def s_def u_def v_def p1_def [symmetric] p2_def [symmetric]
      l_def [symmetric]
    by (rule hav_a_convex)
  have s0: "0 \<le> s" unfolding s_def by simp
  have "\<bar>sin (l / 2)\<bar> \<le> 1" by simp
  then have s1: "s \<le> 1" unfolding s_def by (simp add: abs_square_le_1)
  have u0: "0 \<le> u" unfolding u_def by simp
  have "- 1 \<le> cos (p2 - p1)" by (rule cos_ge_minus_one)
  then have u1: "u \<le> 1" unfolding u_def by argo
  have "- 1 \<le> cos (p1 + p2)" by (rule cos_ge_minus_one)
  then have v0: "0 \<le> v" unfolding v_def by argo
  have v1: "v \<le> 1" unfolding v_def by simp
  show "0 \<le> hav_a lat1 lon1 lat2 lon2" "hav_a lat1 lon1 lat2 lon2 \<le> 1"
    unfolding a using convex_unit [OF s0 s1 u0 u1 v0 v1] by simp_all
qed

lemma km_of_a_nonneg:
  assumes "0 \<le> a"
  shows "km_of_a a = Inr (6371 * (2 * arcsin (min 1 (sqrt a))))"
proof -
  have "0 \<le> sqrt a" using assms by simp
  then have "\<not> (min 1 (sqrt a) < - 1 \<or> 1 < min 1 (sqrt a))" by linarith
  then show ?thesis
    using assms by (simp add: km_of_a_def py_sqrt_def py_asin_def)
qed

lemma haversine_km_total:
  "haversine_km lat1 lon1 lat2 lon2 = Inr (great_circle_km lat1 lon1 lat2 lon2)"
proof -
  have "sqrt (hav_a lat1 lon1 lat2 lon2) \<le> 1"
    using hav_a_range [of lat1 lon1 lat2 lon2] by simp
  then have "min 1 (sqrt (hav_a lat1 lon1 lat2 lon2)) = sqrt (hav_a lat1 lon1 lat2 lon2)"
    by simp
  then show ?thesis
    unfolding haversine_km_def great_circle_km_def
    using km_of_a_nonneg [OF hav_a_range(1) [of lat1 lon1 lat2 lon2]] by simp
qed

lemma great_circle_km_range:
  "0 \<le> great_circle_km lat1 lon1 lat2 lon2" "great_circle_km lat1 lon1 lat2 lon2 \<le> pi * 6371"
proof -
  let ?r = "sqrt (hav_a lat1 lon1 lat2 lon2)"
  have r0: "0 \<le> ?r" and r1: "?r \<le> 1"
    using hav_a_range [of lat1 lon1 lat2 lon2] by simp_all
  have "0 \<le> arcsin ?r" using r0 r1 by (intro arcsin_nonneg) simp
  then show "0 \<le> great_circle_km lat1 lon1 lat2 lon2"
    by (simp add: great_circle_km_def)
  have "- 1 \<le> ?r" using r0 by linarith
  then have "arcsin ?r \<le> pi / 2" using r1 by (rule arcsin_ubound)
  then show "great_circle_km lat1 lon1 lat2 lon2 \<le> pi * 6371"
    by (simp add: great_circle_km_def)
qed

lemma hav_a_sym: "hav_a lat1 lon1 lat2 lon2 = hav_a lat2 lon2 lat1 lon1"
proof -
  have sq: "(sin ((x - y) / 2))\<^sup>2 = (sin ((y - x) / 2))\<^sup>2" for x y :: real
  proof -
    have "(x - y) / 2 = - ((y - x) / 2)" by argo
    then have "sin ((x - y) / 2) = - sin ((y - x) / 2)" by (metis sin_minus)
    then show ?thesis by simp
  qed
  show ?thesis
    unfolding hav_a_def Let_def
    by (simp add: sq [of "radians lat2" "radians lat1"] sq [of "radians lon2" "radians lon1"]
        mult.commute)
qed

lemma hav_a_same: "hav_a lat1 lon1 lat1 lon1 = 0"
  by (simp add: hav_a_def)

lemma haversine_km_same: "haversine_km lat1 lon1 lat1 lon1 = Inr 0"
proof -
  have "haversine_km lat1 lon1 lat1 lon1 = km_of_a 0"
    by (simp add: haversine_km_def hav_a_same)
  also have "\<dots> = Inr 0"
    using km_of_a_nonneg [of 0] by simp
  finally show ?thesis .
qed

text \<open>
  Claim C7. For all points A and B, \<^verbatim>\<open>haversine_km(A, B)\<close> equals
  \<^verbatim>\<open>haversine_km(B, A)\<close>, and \<^verbatim>\<open>haversine_km(A, A)\<close> returns 0.
\<close>

theorem haversine_km_symmetric_zero:
  "haversine_km lat1 lon1 lat2 lon2 = haversine_km lat2 lon2 lat1 lon1
   \<and> haversine_km lat1 lon1 lat1 lon1 = Inr 0"
  by (simp add: haversine_km_same) (simp add: haversine_km_def hav_a_sym [of lat1 lon1 lat2 lon2])







lemma great_circle_km_meridian:
  assumes "lat1 \<le> lat2" "lat2 - lat1 \<le> 180"
  shows "great_circle_km lat1 lon1 lat2 lon1 = 6371 * radians (lat2 - lat1)"
proof -
  define y where "y = radians (lat2 - lat1) / 2"
  have y0: "0 \<le> y" using assms(1) by (simp add: y_def radians_def)
  have "radians (lat2 - lat1) \<le> radians 180"
    using assms(2) by (simp add: radians_def)
  then have y1: "y \<le> pi / 2" by (simp add: y_def radians_def)
  have "(radians lat2 - radians lat1) / 2 = y" by (simp add: y_def radians_def field_simps)
  then have a: "hav_a lat1 lon1 lat2 lon1 = (sin y)\<^sup>2" by (simp add: hav_a_def)
  have "0 \<le> sin y" using y0 y1 by (intro sin_ge_zero) (use pi_gt_zero in linarith)+
  then have "sqrt ((sin y)\<^sup>2) = sin y" by simp
  moreover have "arcsin (sin y) = y" using y0 y1 by (intro arcsin_sin) linarith+
  ultimately show ?thesis by (simp add: great_circle_km_def a y_def)
qed

lemma great_circle_km_sym:
  "great_circle_km lat1 lon1 lat2 lon2 = great_circle_km lat2 lon2 lat1 lon1"
  by (simp add: great_circle_km_def hav_a_sym [of lat1 lon1 lat2 lon2])

lemma great_circle_km_same: "great_circle_km lat1 lon1 lat1 lon1 = 0"
  by (simp add: great_circle_km_def hav_a_same)

subsection \<open>The fallback of travel\_time\_between\<close>

lemma travel_time_between_Failed:
  "travel_time_between Failed lat1 lon1 lat2 lon2 mode =
     Inr (great_circle_km lat1 lon1 lat2 lon2 / (if mode = ''foot'' then 5 else 40) * 60)"
  by (simp add: travel_time_between_def haversine_km_total)

lemma travel_time_between_value:
  "travel_time_between r lat1 lon1 lat2 lon2 mode =
     Inr (case r of
            Duration d \<Rightarrow> d / 60
          | Failed \<Rightarrow>
              great_circle_km lat1 lon1 lat2 lon2 / (if mode = ''foot'' then 5 else 40) * 60)"
  by (cases r) (simp_all add: travel_time_between_def haversine_km_total)

lemma travel_time_between_total:
  "\<exists>t. travel_time_between r lat1 lon1 lat2 lon2 mode = Inr t"
  unfolding travel_time_between_value by blast

text \<open>
  Claim C4. Whenever the routing request fails, \<^verbatim>\<open>travel_time_between\<close> returns
  exactly \<^verbatim>\<open>haversine_km(A, B) / speed * 60\<close>, with speed 5 for mode \<^verbatim>\<open>foot\<close>
  and 40 for every other mode, and raises nothing.
\<close>

theorem fallback_estimate:
  "\<exists>d. haversine_km lat1 lon1 lat2 lon2 = Inr d
     \<and> travel_time_between Failed lat1 lon1 lat2 lon2 mode
         = Inr (d / (if mode = ''foot'' then 5 else 40) * 60)
     \<and> travel_time_between Failed lat1 lon1 lat2 lon2 ''foot'' = Inr (d / 5 * 60)
     \<and> travel_time_between Failed lat1 lon1 lat2 lon2 ''driving'' = Inr (d / 40 * 60)"
  by (simp add: travel_time_between_Failed haversine_km_total)

theorem fallback_estimate_witness:
  "travel_time_between Failed 7 3 7 3 ''driving'' = Inr 0"
proof -
  obtain d where h: "haversine_km 7 3 7 3 = Inr d"
    and t: "travel_time_between Failed 7 3 7 3 ''driving'' = Inr (d / 40 * 60)"
    using fallback_estimate [of 7 3 7 3 "''driving''"] by blast
  have "haversine_km 7 3 7 3 = Inr 0"
    by (rule haversine_km_same)
  with h have "d = 0" by simp
  with t show ?thesis by simp
qed

subsection \<open>Scores and coordinate resolution\<close>

lemma score_poi_value:
  "score_poi p olat olon =
     Inr (case get_lat p of
            None \<Rightarrow> 0
          | Some la \<Rightarrow>
              (case get_lon p of
                 None \<Rightarrow> 0
               | Some lo \<Rightarrow>
                   (case poi_rate p of None \<Rightarrow> 0 | Some r \<Rightarrow> r) * 2
                     - great_circle_km olat olon la lo))"
  by (simp add: score_poi_def haversine_km_total split: option.splits)

lemma score_equator: "score_poi poi_equator 0 10 = Inr 0"
  by (simp add: score_poi_value get_lat_def get_lon_def point_get_def py_or_def poi_equator_def)

text \<open>
  Claim C5 (evaluation at the failing input). A POI on the equator, at \<open>(0, 10)\<close> in
  the nested shape and with rate 3, scored from the origin \<open>(0, 10)\<close>: the distance is
  0, so the formula gives 6; \<^verbatim>\<open>score_poi\<close> returns 0.
\<close>

theorem equator_poi_scores_zero:
  "score_poi poi_equator 0 10 = Inr 0
   \<and> poi_point poi_equator = Some \<lparr>pt_lat = Some 0, pt_lon = Some 10\<rparr>
   \<and> poi_rate poi_equator = Some 3
   \<and> haversine_km 0 10 0 10 = Inr 0"
  by (simp add: score_equator haversine_km_same) (simp add: poi_equator_def)

lemma prepare_total: "\<exists>cs. prepare pois start_lat start_lon = Inr cs"
  by (induction pois) (auto simp: score_poi_value split: option.splits)

lemma prepare_skip:
  assumes "get_lat p = None \<or> get_lon p = None"
  shows "prepare (xs @ p # ys) start_lat start_lon = prepare (xs @ ys) start_lat start_lon"
proof (induction xs)
  case Nil
  from assms show ?case by (auto split: option.splits)
next
  case (Cons x xs)
  then show ?case by (simp split: option.splits sum.splits)
qed

lemma get_lat_zero:
  "poi_point p = Some pt \<Longrightarrow> pt_lat pt = Some 0 \<Longrightarrow> get_lat p = poi_lat p"
  by (simp add: get_lat_def point_get_def py_or_def)

lemma get_lon_zero:
  "poi_point p = Some pt \<Longrightarrow> pt_lon pt = Some 0 \<Longrightarrow> get_lon p = poi_lon p"
  by (simp add: get_lon_def point_get_def py_or_def)

text \<open>
  Claim C10. Coordinate resolution chains by truthiness (\<^verbatim>\<open>nested or flat\<close>): for every
  POI whose nested point carries a latitude or longitude equal to 0, that 0 is skipped
  in favour of the flat \<^verbatim>\<open>lat\<close>/\<^verbatim>\<open>lon\<close> key, and when the flat key is absent too the
  POI is unplaceable: it scores 0 and is filtered out, so the itinerary is the one built
  without it.
\<close>

theorem zero_coordinate_falls_through:
  assumes "poi_point p = Some pt"
  shows "(pt_lat pt = Some 0 \<longrightarrow> get_lat p = poi_lat p)
       \<and> (pt_lon pt = Some 0 \<longrightarrow> get_lon p = poi_lon p)
       \<and> ((pt_lat pt = Some 0 \<and> poi_lat p = None) \<or> (pt_lon pt = Some 0 \<and> poi_lon p = None)
            \<longrightarrow> score_poi p start_lat start_lon = Inr 0
              \<and> prepare (xs @ p # ys) start_lat start_lon
                  = prepare (xs @ ys) start_lat start_lon
              \<and> build_greedy_itinerary net (xs @ p # ys) start_lat start_lon n_days
                    hours_per_day mode
                  = build_greedy_itinerary net (xs @ ys) start_lat start_lon n_days
                      hours_per_day mode)"
proof (intro conjI impI)
  show "get_lat p = poi_lat p" if "pt_lat pt = Some 0"
    using assms that by (rule get_lat_zero)
  show "get_lon p = poi_lon p" if "pt_lon pt = Some 0"
    using assms that by (rule get_lon_zero)
next
  assume z: "(pt_lat pt = Some 0 \<and> poi_lat p = None) \<or> (pt_lon pt = Some 0 \<and> poi_lon p = None)"
  then have none: "get_lat p = None \<or> get_lon p = None"
    using get_lat_zero [OF assms] get_lon_zero [OF assms] by auto
  then show "score_poi p start_lat start_lon = Inr 0"
    by (auto simp: score_poi_value split: option.splits)
  show skip: "prepare (xs @ p # ys) start_lat start_lon = prepare (xs @ ys) start_lat start_lon"
    using none by (rule prepare_skip)
  show "build_greedy_itinerary net (xs @ p # ys) start_lat start_lon n_days hours_per_day mode
      = build_greedy_itinerary net (xs @ ys) start_lat start_lon n_days hours_per_day mode"
    by (simp add: build_greedy_itinerary_def skip)
qed

theorem zero_coordinate_falls_through_witness:
  "poi_point poi_equator = Some \<lparr>pt_lat = Some 0, pt_lon = Some 10\<rparr>
   \<and> get_lat poi_equator = None
   \<and> score_poi poi_equator 48 2 = Inr 0
   \<and> build_greedy_itinerary net_down [example_poi ''A'' 1, poi_equator] 48 2 1 8 ''foot''
     = build_greedy_itinerary net_down [example_poi ''A'' 1] 48 2 1 8 ''foot''"
proof -
  have p: "poi_point poi_equator = Some \<lparr>pt_lat = Some 0, pt_lon = Some 10\<rparr>"
    by (simp add: poi_equator_def)
  have z: "pt_lat \<lparr>pt_lat = Some 0, pt_lon = Some 10\<rparr> = Some 0" by simp
  have n: "poi_lat poi_equator = None" by (simp add: poi_equator_def)
  show ?thesis
    using zero_coordinate_falls_through [OF p, of 48 2 "[example_poi ''A'' 1]" "[]" net_down 1 8
        "''foot''"] p z n
    by simp
qed

subsection \<open>The order of the candidates\<close>

text \<open>
  Claim C8. The filtered candidates are sorted by score in descending order, and the
  sort is stable: the candidates of any one score stand in the sorted list, which the
  packing loop consumes, in their input order.
\<close>

theorem sorted_by_score_stable:
  "\<exists>cs. prepare pois start_lat start_lon = Inr cs
     \<and> build_greedy_itinerary net pois start_lat start_lon n_days h mode
         = (case pack net start_lat start_lon n_days h mode (sorted_by_score cs)
                   (initial_state start_lat start_lon h) of
              Inl e \<Rightarrow> Inl e
            | Inr st \<Rightarrow> Inr (finish st))
     \<and> sorted_wrt (\<lambda>x y. us_score y \<le> us_score x) (sorted_by_score cs)
     \<and> length (sorted_by_score cs) = length cs
     \<and> set (sorted_by_score cs) = set cs
     \<and> (\<forall>k. filter (\<lambda>c. us_score c = k) (sorted_by_score cs)
              = filter (\<lambda>c. us_score c = k) cs)"
proof -
  obtain cs where cs: "prepare pois start_lat start_lon = Inr cs"
    using prepare_total by blast
  have "sorted (map (\<lambda>x. - us_score x) (sorted_by_score cs))"
    unfolding sorted_by_score_def by (rule sorted_sort_key)
  then have desc: "sorted_wrt (\<lambda>x y. us_score y \<le> us_score x) (sorted_by_score cs)"
    by (simp add: sorted_map)
  have stable: "filter (\<lambda>c. us_score c = k) (sorted_by_score cs)
      = filter (\<lambda>c. us_score c = k) cs" for k
    using sort_key_stable [of "\<lambda>x. - us_score x" "- k" cs]
    by (simp add: sorted_by_score_def)
  show ?thesis
    using cs desc stable by (simp add: build_greedy_itinerary_def sorted_by_score_def)
qed

theorem sorted_by_score_stable_witness:
  "\<exists>cs. prepare [example_poi ''A'' 1, example_poi ''C'' 2, example_poi ''B'' 1] 0 0 = Inr cs
     \<and> map (\<lambda>c. poi_name (c_poi c))
         (filter (\<lambda>c. us_score c = 2 - great_circle_km 0 0 1 1) (sorted_by_score cs))
       = [Some ''A'', Some ''B'']"
proof -
  obtain cs
    where cs: "prepare [example_poi ''A'' 1, example_poi ''C'' 2, example_poi ''B'' 1] 0 0 = Inr cs"
      and st: "\<forall>k. filter (\<lambda>c. us_score c = k) (sorted_by_score cs)
              = filter (\<lambda>c. us_score c = k) cs"
    using sorted_by_score_stable
      [of "[example_poi ''A'' 1, example_poi ''C'' 2, example_poi ''B'' 1]" 0 0]
    by blast
  from cs have "map (\<lambda>c. poi_name (c_poi c))
      (filter (\<lambda>c. us_score c = 2 - great_circle_km 0 0 1 1) cs) = [Some ''A'', Some ''B'']"
    by (auto simp: score_poi_value get_lat_def get_lon_def point_get_def py_or_def
        example_poi_def)
  with cs st show ?thesis by simp
qed

subsection \<open>One step of the packing loop\<close>

lemma step_total:
  "\<exists>f. step net start_lat start_lon n_days h mode p st = Inr f"
  by (simp add: step_def Let_def travel_time_between_value)

lemma pack_total:
  "\<exists>st'. pack net start_lat start_lon n_days h mode ps st = Inr st'"
proof (induction ps arbitrary: st)
  case Nil
  show ?case by simp
next
  case (Cons p ps)
  obtain f where f: "step net start_lat start_lon n_days h mode p st = Inr f"
    using step_total by blast
  show ?case using Cons [of "case f of Continue s \<Rightarrow> s | Break s \<Rightarrow> s"]
    by (cases f) (simp_all add: f)
qed

text \<open>
  Claim C6. When a candidate does not fit in the current day and a new day is opened
  (the day counter is still within \<^verbatim>\<open>days\<close>), the travel time of that same candidate
  is asked again from the trip origin, not from the last visited point: the request
  carries the origin, and when it fails the estimate is the distance from the origin.
  If it fits, the candidate is the first visit of the new day and the current position
  and \<^verbatim>\<open>minutes_left\<close> are updated; if not, it is dropped: the new day stays empty, the
  position stays where it was, and the loop goes on with the remaining candidates only.
\<close>

theorem new_day_restarts_from_origin:
  assumes first: "travel_time_between (net (calls st)) (current_lat st) (current_lon st)
                    (us_lat p) (us_lon p) mode = Inr t"
    and nofit: "minutes_left (current_day st) < t + 60"
    and within: "day_no st + 1 \<le> n_days"
  shows "\<exists>t' st'.
           travel_time_between (net (calls st + 1)) start_lat start_lon (us_lat p) (us_lon p) mode
             = Inr t'
         \<and> t' = (case net (calls st + 1) of
                   Duration d \<Rightarrow> d / 60
                 | Failed \<Rightarrow>
                     great_circle_km start_lat start_lon (us_lat p) (us_lon p)
                       / (if mode = ''foot'' then 5 else 40) * 60)
         \<and> step net start_lat start_lon n_days h mode p st = Inr (Continue st')
         \<and> pack net start_lat start_lon n_days h mode (p # ps) st
             = pack net start_lat start_lon n_days h mode ps st'
         \<and> itin st' = itin st @ [current_day st]
         \<and> day_no st' = day_no st + 1
         \<and> day (current_day st') = day_no st + 1
         \<and> calls st' = calls st + 2
         \<and> (if t' + 60 \<le> h * 60
             then items (current_day st')
                    = [\<lparr>v_name = poi_name (c_poi p), v_lat = us_lat p, v_lon = us_lon p,
                        travel_min = round1 t', visit_min = 60, desc = poi_kinds (c_poi p)\<rparr>]
                  \<and> minutes_left (current_day st') = h * 60 - (t' + 60)
                  \<and> current_lat st' = us_lat p \<and> current_lon st' = us_lon p
             else items (current_day st') = []
                  \<and> minutes_left (current_day st') = h * 60
                  \<and> current_lat st' = current_lat st \<and> current_lon st' = current_lon st)"
proof -
  define t' where "t' = (case net (calls st + 1) of
                   Duration d \<Rightarrow> d / 60
                 | Failed \<Rightarrow>
                     great_circle_km start_lat start_lon (us_lat p) (us_lon p)
                       / (if mode = ''foot'' then 5 else 40) * 60)"
  have t': "travel_time_between (net (calls st + 1)) start_lat start_lon
      (us_lat p) (us_lon p) mode = Inr t'"
    unfolding t'_def by (rule travel_time_between_value)
  define st4 where "st4 = st\<lparr>calls := calls st + 1, itin := itin st @ [current_day st],
      day_no := day_no st + 1,
      current_day := \<lparr>day = day_no st + 1, items = [], minutes_left = h * 60\<rparr>,
      calls := Suc (calls st + 1)\<rparr>"
  define st' where "st' = (if t' + 60 \<le> h * 60 then append_visit p t' 60 st4 else st4)"
  have s: "step net start_lat start_lon n_days h mode p st = Inr (Continue st')"
    using first nofit within t' by (simp add: step_def Let_def st'_def st4_def)
  have "pack net start_lat start_lon n_days h mode (p # ps) st
      = pack net start_lat start_lon n_days h mode ps st'"
    by (simp add: s)
  moreover have "itin st' = itin st @ [current_day st]" "day_no st' = day_no st + 1"
    "day (current_day st') = day_no st + 1" "calls st' = calls st + 2"
    by (simp_all add: st'_def st4_def append_visit_def)
  moreover have "if t' + 60 \<le> h * 60
             then items (current_day st')
                    = [\<lparr>v_name = poi_name (c_poi p), v_lat = us_lat p, v_lon = us_lon p,
                        travel_min = round1 t', visit_min = 60, desc = poi_kinds (c_poi p)\<rparr>]
                  \<and> minutes_left (current_day st') = h * 60 - (t' + 60)
                  \<and> current_lat st' = us_lat p \<and> current_lon st' = us_lon p
             else items (current_day st') = []
                  \<and> minutes_left (current_day st') = h * 60
                  \<and> current_lat st' = current_lat st \<and> current_lon st' = current_lon st"
    by (simp add: st'_def st4_def append_visit_def)
  ultimately show ?thesis using t' s t'_def by blast
qed

text \<open>
  A run that tells the origin from the last visited point. The trip starts at
  \<open>(10, 20)\<close>, with two hours a day and three days, on foot; the first route is answered
  (ten minutes), then the routing service is down. Q is visited first. P, which lies at
  the origin, does not fit after Q; from Q it is 13.3 minutes away, from the origin 0:
  the visit stored in day 2 has \<^verbatim>\<open>travel_min = 0\<close> and leaves 60 minutes. R fits neither
  after P nor in the fresh day 3 from the origin: it is dropped and appears nowhere.
\<close>

lemma dist_q_p: "great_circle_km (1001 / 100) 20 10 20 = 6371 * pi / 18000"
proof -
  have "great_circle_km 10 20 (1001 / 100) 20 = 6371 * radians (1001 / 100 - 10)"
    by (rule great_circle_km_meridian) simp_all
  then show ?thesis
    by (simp add: great_circle_km_sym [of "1001 / 100" 20 10 20] radians_def)
qed

lemma dist_o_q: "great_circle_km 10 20 (1001 / 100) 20 = 6371 * pi / 18000"
  using dist_q_p by (simp add: great_circle_km_sym [of "1001 / 100" 20 10 20])

lemma dist_o_r: "great_circle_km 10 20 11 20 = 6371 * pi / 180"
proof -
  have "great_circle_km 10 20 11 20 = 6371 * radians (11 - 10)"
    by (rule great_circle_km_meridian) simp_all
  then show ?thesis by (simp add: radians_def)
qed

lemma round1_zero: "round1 0 = 0"
  by (simp add: round1_def)

lemma prepare_example:
  "prepare [poi_at ''R'' 11 20 7, poi_at ''P'' 10 20 1, poi_at ''Q'' (1001 / 100) 20 3] 10 20
   = Inr [cand_r, cand_p, cand_q]"
  by (simp add: score_poi_value get_lat_def get_lon_def point_get_def py_or_def poi_at_def
      cand_q_def cand_p_def cand_r_def dist_o_q dist_o_r great_circle_km_same)

lemma sorted_example: "sorted_by_score [cand_r, cand_p, cand_q] = [cand_q, cand_p, cand_r]"
  using pi_ge_two pi_less_4
  by (simp add: sorted_by_score_def cand_q_def cand_p_def cand_r_def)

theorem new_day_restarts_from_origin_witness:
  "build_greedy_itinerary net_route_then_down
     [poi_at ''R'' 11 20 7, poi_at ''P'' 10 20 1, poi_at ''Q'' (1001 / 100) 20 3]
     10 20 3 2 ''foot''
   = Inr \<lparr>it_days = [day_q, day_p]\<rparr>
   \<and> travel_time_between Failed (1001 / 100) 20 10 20 ''foot'' = Inr (6371 * pi / 1500)
   \<and> travel_time_between Failed 10 20 10 20 ''foot'' = Inr 0
   \<and> travel_time_between Failed 10 20 11 20 ''foot'' = Inr (6371 * pi / 15)"
proof -
  let ?net = net_route_then_down
  define st_q where "st_q =
    \<lparr>current_lat = 1001 / 100, current_lon = 20, day_no = 1, current_day = day_q,
     itin = [], calls = 1\<rparr>"
  have from_q: "travel_time_between Failed (1001 / 100) 20 10 20 ''foot'' = Inr (6371 * pi / 1500)"
    by (simp add: travel_time_between_value dist_q_p)
  have from_o: "travel_time_between Failed 10 20 10 20 ''foot'' = Inr 0"
    by (simp add: travel_time_between_value great_circle_km_same)
  have to_r: "travel_time_between Failed 10 20 11 20 ''foot'' = Inr (6371 * pi / 15)"
    by (simp add: travel_time_between_value dist_o_r)
  have step_q: "step ?net 10 20 3 2 ''foot'' cand_q (initial_state 10 20 2) = Inr (Continue st_q)"
    by (simp add: step_def Let_def append_visit_def travel_time_between_value
        net_route_then_down_def initial_state_def cand_q_def poi_at_def st_q_def day_q_def
        round1_def)
  \<comment> \<open>P does not fit after Q; day 2 is opened and P is asked for from the origin\<close>
  have first_p: "travel_time_between (?net (calls st_q)) (current_lat st_q) (current_lon st_q)
      (us_lat cand_p) (us_lon cand_p) ''foot'' = Inr (6371 * pi / 1500)"
    using from_q by (simp add: st_q_def cand_p_def net_route_then_down_def)
  have nofit_p: "minutes_left (current_day st_q) < 6371 * pi / 1500 + 60"
  proof -
    have ml: "minutes_left (current_day st_q) = 50" by (simp add: st_q_def day_q_def)
    have "0 < 6371 * pi / 1500" by simp
    then show ?thesis unfolding ml by linarith
  qed
  have within_p: "day_no st_q + 1 \<le> 3"
    by (simp add: st_q_def)
  obtain t_p st_p where
    t_p: "t_p = (case ?net (calls st_q + 1) of
                   Duration d \<Rightarrow> d / 60
                 | Failed \<Rightarrow>
                     great_circle_km 10 20 (us_lat cand_p) (us_lon cand_p)
                       / (if ''foot'' = ''foot'' then 5 else 40) * 60)"
    and pack_p: "pack ?net 10 20 3 2 ''foot'' (cand_p # [cand_r]) st_q
                 = pack ?net 10 20 3 2 ''foot'' [cand_r] st_p"
    and itin_p: "itin st_p = itin st_q @ [current_day st_q]"
    and no_p: "day_no st_p = day_no st_q + 1"
    and day_p': "day (current_day st_p) = day_no st_q + 1"
    and calls_p: "calls st_p = calls st_q + 2"
    and br_p: "if t_p + 60 \<le> 2 * 60
             then items (current_day st_p)
                    = [\<lparr>v_name = poi_name (c_poi cand_p), v_lat = us_lat cand_p,
                        v_lon = us_lon cand_p, travel_min = round1 t_p, visit_min = 60,
                        desc = poi_kinds (c_poi cand_p)\<rparr>]
                  \<and> minutes_left (current_day st_p) = 2 * 60 - (t_p + 60)
                  \<and> current_lat st_p = us_lat cand_p \<and> current_lon st_p = us_lon cand_p
             else items (current_day st_p) = []
                  \<and> minutes_left (current_day st_p) = 2 * 60
                  \<and> current_lat st_p = current_lat st_q \<and> current_lon st_p = current_lon st_q"
    using new_day_restarts_from_origin [where net = ?net and st = st_q and p = cand_p
        and mode = "''foot''" and t = "6371 * pi / 1500" and n_days = 3 and start_lat = 10
        and start_lon = 20 and h = 2 and ps = "[cand_r]", OF first_p nofit_p within_p]
    by blast
  have t_p0: "t_p = 0"
    unfolding t_p by (simp add: st_q_def net_route_then_down_def cand_p_def great_circle_km_same)
  have cur_p: "current_day st_p = day_p"
    using br_p day_p'
    by (intro day_plan.equality)
       (simp_all add: t_p0 round1_zero cand_p_def poi_at_def day_p_def st_q_def)
  have pos_p: "current_lat st_p = 10" "current_lon st_p = 20"
    using br_p by (simp_all add: t_p0 cand_p_def)
  \<comment> \<open>R fits neither after P nor in day 3 from the origin: it is dropped\<close>
  have first_r: "travel_time_between (?net (calls st_p)) (current_lat st_p) (current_lon st_p)
      (us_lat cand_r) (us_lon cand_r) ''foot'' = Inr (6371 * pi / 15)"
    using to_r by (simp add: calls_p pos_p st_q_def cand_r_def net_route_then_down_def)
  have nofit_r: "minutes_left (current_day st_p) < 6371 * pi / 15 + 60"
  proof -
    have ml: "minutes_left (current_day st_p) = 60" by (simp add: cur_p day_p_def)
    have "0 < 6371 * pi / 15" by simp
    then show ?thesis unfolding ml by linarith
  qed
  have within_r: "day_no st_p + 1 \<le> 3"
    by (simp add: no_p st_q_def)
  obtain t_r st_r where
    t_r: "t_r = (case ?net (calls st_p + 1) of
                   Duration d \<Rightarrow> d / 60
                 | Failed \<Rightarrow>
                     great_circle_km 10 20 (us_lat cand_r) (us_lon cand_r)
                       / (if ''foot'' = ''foot'' then 5 else 40) * 60)"
    and pack_r: "pack ?net 10 20 3 2 ''foot'' (cand_r # []) st_p
                 = pack ?net 10 20 3 2 ''foot'' [] st_r"
    and itin_r: "itin st_r = itin st_p @ [current_day st_p]"
    and br_r: "if t_r + 60 \<le> 2 * 60
             then items (current_day st_r)
                    = [\<lparr>v_name = poi_name (c_poi cand_r), v_lat = us_lat cand_r,
                        v_lon = us_lon cand_r, travel_min = round1 t_r, visit_min = 60,
                        desc = poi_kinds (c_poi cand_r)\<rparr>]
                  \<and> minutes_left (current_day st_r) = 2 * 60 - (t_r + 60)
                  \<and> current_lat st_r = us_lat cand_r \<and> current_lon st_r = us_lon cand_r
             else items (current_day st_r) = []
                  \<and> minutes_left (current_day st_r) = 2 * 60
                  \<and> current_lat st_r = current_lat st_p \<and> current_lon st_r = current_lon st_p"
    using new_day_restarts_from_origin [where net = ?net and st = st_p and p = cand_r
        and mode = "''foot''" and t = "6371 * pi / 15" and n_days = 3 and start_lat = 10
        and start_lon = 20 and h = 2 and ps = "[]", OF first_r nofit_r within_r]
    by blast
  have t_r': "t_r = 6371 * pi / 15"
    unfolding t_r by (simp add: calls_p st_q_def net_route_then_down_def cand_r_def dist_o_r)
  have "\<not> t_r + 60 \<le> 2 * 60"
    unfolding t_r' using pi_ge_two by linarith
  with br_r have empty_r: "items (current_day st_r) = []" by simp
  have pk: "pack ?net 10 20 3 2 ''foot'' [cand_q, cand_p, cand_r] (initial_state 10 20 2)
      = Inr st_r"
    using pack_p pack_r by (simp add: step_q)
  have fin: "finish st_r = \<lparr>it_days = [day_q, day_p]\<rparr>"
    by (simp add: finish_def empty_r itin_r itin_p cur_p st_q_def)
  have "build_greedy_itinerary ?net
     [poi_at ''R'' 11 20 7, poi_at ''P'' 10 20 1, poi_at ''Q'' (1001 / 100) 20 3]
     10 20 3 2 ''foot'' = Inr \<lparr>it_days = [day_q, day_p]\<rparr>"
    by (simp only: build_greedy_itinerary_def prepare_example sorted_example pk fin sum.case)
  then show ?thesis using from_q from_o to_r by (simp only: simp_thms)
qed

subsection \<open>The budget of a day\<close>

lemma round1_near: "\<bar>round1 x - x\<bar> \<le> 1 / 20"
proof -
  define f where "f = \<lfloor>x * 10\<rfloor>"
  define r where "r = x * 10 - of_int f"
  have r0: "0 \<le> r" and r1: "r < 1" unfolding r_def f_def by linarith+
  have x: "x = (of_int f + r) / 10" unfolding r_def by simp
  have rd: "round1 x =
      (if r < 1 / 2 then of_int f else if 1 / 2 < r then of_int (f + 1)
       else if even f then of_int f else of_int (f + 1)) / 10"
    unfolding round1_def Let_def f_def [symmetric] r_def [symmetric] ..
  show ?thesis
    unfolding rd by (subst x) (use r0 r1 in \<open>auto simp: field_simps abs_if\<close>)
qed

lemma day_ok_append:
  assumes ok: "day_ok h (current_day st)" and fit: "t + v \<le> minutes_left (current_day st)"
  shows "day_ok h (current_day (append_visit p t v st))"
proof -
  let ?d = "current_day st" and ?d' = "current_day (append_visit p t v st)"
  have sm: "scheduled_minutes ?d' = scheduled_minutes ?d + (round1 t + v)"
    by (simp add: scheduled_minutes_def append_visit_def)
  have ml: "minutes_left ?d' = minutes_left ?d - (t + v)"
    by (simp add: append_visit_def)
  have len: "length (items ?d') = Suc (length (items ?d))" and ne: "items ?d' \<noteq> []"
    by (simp_all add: append_visit_def)
  have old: "\<bar>scheduled_minutes ?d + minutes_left ?d - h * 60\<bar> \<le> real (length (items ?d)) / 20"
    using ok by (simp add: day_ok_def)
  have "\<bar>scheduled_minutes ?d' + minutes_left ?d' - h * 60\<bar>
      \<le> real (length (items ?d')) / 20"
    unfolding sm ml len using old round1_near [of t] by (simp add: field_simps abs_if split: if_splits)
  moreover have "0 \<le> minutes_left ?d'" unfolding ml using fit by simp
  ultimately show ?thesis using ne by (simp add: day_ok_def)
qed

lemma append_visit_itin [simp]: "itin (append_visit p t v st) = itin st"
  by (simp add: append_visit_def)

lemma day_ok_fresh: "day_ok h \<lparr>day = n, items = [], minutes_left = h * 60\<rparr>"
  by (simp add: day_ok_def scheduled_minutes_def)

lemma step_all:
  assumes inv: "state_all P st"
    and f: "step net start_lat start_lon n_days h mode p st = Inr f"
    and fresh: "\<And>n. P \<lparr>day = n, items = [], minutes_left = h * 60\<rparr>"
    and app: "\<And>s t k a b. P (current_day s) \<Longrightarrow> t + 60 \<le> minutes_left (current_day s) \<Longrightarrow>
        travel_time_between (net k) a b (us_lat p) (us_lon p) mode = Inr t \<Longrightarrow>
        P (current_day (append_visit p t 60 s))"
  shows "state_all P (case f of Continue s \<Rightarrow> s | Break s \<Rightarrow> s)"
proof -
  obtain t where t: "travel_time_between (net (calls st)) (current_lat st) (current_lon st)
      (us_lat p) (us_lon p) mode = Inr t"
    using travel_time_between_total by blast
  obtain t' where t': "travel_time_between (net (Suc (calls st))) start_lat start_lon
      (us_lat p) (us_lon p) mode = Inr t'"
    using travel_time_between_total by blast
  have cur: "P (current_day st)" and old: "\<forall>d \<in> set (itin st). P d"
    using inv by (simp_all add: state_all_def)
  show ?thesis
  proof (cases "t + 60 \<le> minutes_left (current_day st)")
    case True
    then have f': "f = Continue (append_visit p t 60 (st\<lparr>calls := calls st + 1\<rparr>))"
      using f t by (simp add: step_def Let_def)
    have "P (current_day (append_visit p t 60 (st\<lparr>calls := calls st + 1\<rparr>)))"
      using cur True t by (intro app) simp_all
    then show ?thesis using old by (simp add: f' state_all_def)
  next
    case False
    show ?thesis
    proof (cases "n_days < day_no st + 1")
      case True
      then have "f = Break (st\<lparr>calls := calls st + 1, itin := itin st @ [current_day st],
          day_no := day_no st + 1\<rparr>)"
        using f t False by (simp add: step_def Let_def)
      then show ?thesis using cur old by (simp add: state_all_def)
    next
      case within: False
      define st4 where "st4 = st\<lparr>calls := calls st + 1, itin := itin st @ [current_day st],
          day_no := day_no st + 1,
          current_day := \<lparr>day = day_no st + 1, items = [], minutes_left = h * 60\<rparr>,
          calls := Suc (calls st + 1)\<rparr>"
      have fr: "state_all P st4"
        using cur old by (simp add: st4_def state_all_def fresh)
      show ?thesis
      proof (cases "t' + 60 \<le> h * 60")
        case True
        then have f': "f = Continue (append_visit p t' 60 st4)"
          using f t t' False within by (simp add: step_def Let_def st4_def)
        have "P (current_day (append_visit p t' 60 st4))"
          using fr True t' by (intro app) (simp_all add: state_all_def st4_def)
        then show ?thesis using fr by (simp add: f' state_all_def)
      next
        case False
        then have f': "f = Continue st4"
          using f t t' \<open>\<not> t + 60 \<le> minutes_left (current_day st)\<close> within
          by (simp add: step_def Let_def st4_def)
        then show ?thesis using fr by simp
      qed
    qed
  qed
qed

lemma pack_all:
  assumes "state_all P st"
    and "pack net start_lat start_lon n_days h mode ps st = Inr st'"
    and fresh: "\<And>n. P \<lparr>day = n, items = [], minutes_left = h * 60\<rparr>"
    and app: "\<And>p s t k a b. P (current_day s) \<Longrightarrow> t + 60 \<le> minutes_left (current_day s) \<Longrightarrow>
        travel_time_between (net k) a b (us_lat p) (us_lon p) mode = Inr t \<Longrightarrow>
        P (current_day (append_visit p t 60 s))"
  shows "state_all P st'"
  using assms(1,2)
proof (induction ps arbitrary: st)
  case Nil
  then show ?case by simp
next
  case (Cons p ps)
  obtain f where f: "step net start_lat start_lon n_days h mode p st = Inr f"
    using step_total by blast
  have ok: "state_all P (case f of Continue s \<Rightarrow> s | Break s \<Rightarrow> s)"
    using Cons.prems(1) f fresh app by (rule step_all)
  show ?case
  proof (cases f)
    case (Continue s)
    then show ?thesis using Cons.IH [of s] Cons.prems(2) ok f by simp
  next
    case (Break s)
    then show ?thesis using Cons.prems(2) ok f by simp
  qed
qed

lemma build_all:
  assumes fresh: "\<And>n. P \<lparr>day = n, items = [], minutes_left = h * 60\<rparr>"
    and app: "\<And>p s t k a b. P (current_day s) \<Longrightarrow> t + 60 \<le> minutes_left (current_day s) \<Longrightarrow>
        travel_time_between (net k) a b (us_lat p) (us_lon p) mode = Inr t \<Longrightarrow>
        P (current_day (append_visit p t 60 s))"
  shows "\<exists>it. build_greedy_itinerary net pois start_lat start_lon n_days h mode = Inr it
        \<and> (\<forall>d \<in> set (it_days it). P d)"
proof -
  obtain cs where cs: "prepare pois start_lat start_lon = Inr cs"
    using prepare_total by blast
  obtain st where st: "pack net start_lat start_lon n_days h mode (sorted_by_score cs)
      (initial_state start_lat start_lon h) = Inr st"
    using pack_total by blast
  have "state_all P (initial_state start_lat start_lon h)"
    by (simp add: state_all_def initial_state_def fresh)
  then have "state_all P st" using st fresh app by (rule pack_all)
  then have "\<forall>d \<in> set (it_days (finish st)). P d"
    by (auto simp: finish_def state_all_def)
  then show ?thesis by (simp add: build_greedy_itinerary_def cs st)
qed

lemma travel_nonneg:
  assumes "nonneg_durations net"
    and "travel_time_between (net k) a b c d mode = Inr t"
  shows "0 \<le> t"
proof (cases "net k")
  case Failed
  then show ?thesis
    using assms(2) great_circle_km_range(1) [of a b c d]
    by (auto simp: travel_time_between_value)
next
  case (Duration x)
  then have "0 \<le> x" using assms(1) by (auto simp: nonneg_durations_def)
  then show ?thesis using assms(2) Duration by (auto simp: travel_time_between_value)
qed

lemma day_spent_append:
  assumes "day_spent h (current_day s)" and "0 \<le> t"
  shows "day_spent h (current_day (append_visit p t 60 s))"
  using assms by (simp add: day_spent_def append_visit_def)

text \<open>
  Claim C3, as amended. The budget is charged the unrounded travel time, the visit
  stores it rounded to one decimal. For every DayPlan of a returned itinerary:
  \<^verbatim>\<open>minutes_left\<close> is \<^verbatim>\<open>hours_per_day * 60\<close> while the day has no visit and is never
  negative once it has one; the sum over its visits of the stored
  \<^verbatim>\<open>travel_min + visit_min\<close> is what has been taken from the budget,
  \<^verbatim>\<open>hours_per_day * 60 - minutes_left\<close>, up to 0.05 minutes per visit, hence at most
  \<^verbatim>\<open>hours_per_day * 60\<close> plus 0.05 per visit; and when the routing service reports no
  negative duration every visit has lowered \<^verbatim>\<open>minutes_left\<close> by at least 60.
\<close>

theorem day_budget_up_to_rounding:
  "\<exists>it. build_greedy_itinerary net pois start_lat start_lon n_days h mode = Inr it
     \<and> (\<forall>d \<in> set (it_days it).
          (items d = [] \<longrightarrow> minutes_left d = h * 60)
        \<and> (items d \<noteq> [] \<longrightarrow>
             0 \<le> minutes_left d
             \<and> scheduled_minutes d \<le> h * 60 + real (length (items d)) / 20)
        \<and> \<bar>scheduled_minutes d + minutes_left d - h * 60\<bar> \<le> real (length (items d)) / 20
        \<and> (nonneg_durations net \<longrightarrow> minutes_left d + 60 * real (length (items d)) \<le> h * 60))"
proof -
  let ?P = "\<lambda>d. day_ok h d \<and> (nonneg_durations net \<longrightarrow> day_spent h d)"
  have fresh: "?P \<lparr>day = n, items = [], minutes_left = h * 60\<rparr>" for n
    by (simp add: day_ok_fresh day_spent_def)
  have app: "?P (current_day (append_visit p t 60 s))"
    if "?P (current_day s)" "t + 60 \<le> minutes_left (current_day s)"
      "travel_time_between (net k) a b (us_lat p) (us_lon p) mode = Inr t"
    for p s t k a b
    using that day_ok_append [of h s t 60 p] day_spent_append [of h s t p]
      travel_nonneg [of net k a b "us_lat p" "us_lon p" mode t]
    by blast
  have "\<exists>it. build_greedy_itinerary net pois start_lat start_lon n_days h mode = Inr it
      \<and> (\<forall>d \<in> set (it_days it). ?P d)"
  proof (rule build_all)
    show "?P \<lparr>day = n, items = [], minutes_left = h * 60\<rparr>" for n
      by (rule fresh)
    show "?P (current_day (append_visit p t 60 s))"
      if "?P (current_day s)" "t + 60 \<le> minutes_left (current_day s)"
        "travel_time_between (net k) a b (us_lat p) (us_lon p) mode = Inr t"
      for p s t k a b
      using that by (rule app)
  qed
  then obtain it
    where it: "build_greedy_itinerary net pois start_lat start_lon n_days h mode = Inr it"
      and all: "\<forall>d \<in> set (it_days it). ?P d"
    by blast
  have "(items d = [] \<longrightarrow> minutes_left d = h * 60)
        \<and> (items d \<noteq> [] \<longrightarrow>
             0 \<le> minutes_left d
             \<and> scheduled_minutes d \<le> h * 60 + real (length (items d)) / 20)
        \<and> \<bar>scheduled_minutes d + minutes_left d - h * 60\<bar> \<le> real (length (items d)) / 20
        \<and> (nonneg_durations net \<longrightarrow> minutes_left d + 60 * real (length (items d)) \<le> h * 60)"
    if "d \<in> set (it_days it)" for d
  proof -
    from all that have ok: "day_ok h d" and sp: "nonneg_durations net \<longrightarrow> day_spent h d"
      by blast+
    from ok have a: "items d = [] \<longrightarrow> minutes_left d = h * 60"
      and b: "items d \<noteq> [] \<longrightarrow> 0 \<le> minutes_left d"
      and c: "\<bar>scheduled_minutes d + minutes_left d - h * 60\<bar> \<le> real (length (items d)) / 20"
      by (simp_all add: day_ok_def)
    from b c have "items d \<noteq> [] \<longrightarrow> scheduled_minutes d \<le> h * 60 + real (length (items d)) / 20"
      by (auto simp: abs_if split: if_splits)
    with a b c sp show ?thesis by (simp add: day_spent_def)
  qed
  with it show ?thesis by blast
qed

subsection \<open>Runs of the builder\<close>

lemmas run_simps =
  build_greedy_itinerary_def score_poi_value get_lat_def get_lon_def point_get_def py_or_def
  sorted_by_score_def step_def Let_def append_visit_def round1_def
  travel_time_between_value initial_state_def finish_def example_poi_def

lemma build_rounding_example:
  "build_greedy_itinerary net_rounding
     [example_poi ''A'' 1, example_poi ''B'' 1, example_poi ''C'' 1] 0 0 1 4 ''foot''
   = Inr \<lparr>it_days = [day_rounding]\<rparr>"
  by (simp add: run_simps net_rounding_def day_rounding_def)

lemma scheduled_minutes_day_rounding: "scheduled_minutes day_rounding = 2401 / 10"
  by (simp add: scheduled_minutes_def day_rounding_def)

theorem stored_sum_exceeds_budget:
  "build_greedy_itinerary net_rounding
     [example_poi ''A'' 1, example_poi ''B'' 1, example_poi ''C'' 1] 0 0 1 4 ''foot''
   = Inr \<lparr>it_days = [day_rounding]\<rparr>
   \<and> \<not> scheduled_minutes day_rounding \<le> 4 * 60"
  by (simp add: build_rounding_example scheduled_minutes_day_rounding)

theorem day_budget_up_to_rounding_witness:
  "nonneg_durations net_rounding
   \<and> items day_rounding \<noteq> []
   \<and> 0 \<le> minutes_left day_rounding
   \<and> scheduled_minutes day_rounding \<le> 4 * 60 + real (length (items day_rounding)) / 20
   \<and> \<bar>scheduled_minutes day_rounding + minutes_left day_rounding - 4 * 60\<bar>
       \<le> real (length (items day_rounding)) / 20
   \<and> minutes_left day_rounding + 60 * real (length (items day_rounding)) \<le> 4 * 60"
proof -
  have nn: "nonneg_durations net_rounding"
    by (simp add: nonneg_durations_def net_rounding_def)
  have ne: "items day_rounding \<noteq> []"
    by (simp add: day_rounding_def)
  show ?thesis
    using day_budget_up_to_rounding [of net_rounding
        "[example_poi ''A'' 1, example_poi ''B'' 1, example_poi ''C'' 1]" 0 0 1 4 "''foot''"]
      nn ne
    by (simp add: build_rounding_example)
qed

lemma build_first_fits_example:
  "build_greedy_itinerary net_ten_then_hundred
     [example_poi ''A'' 2, example_poi ''B'' 1] 0 0 1 2 ''foot''
   = Inr \<lparr>it_days = [day_only_a, day_only_a]\<rparr>"
  by (simp add: run_simps net_ten_then_hundred_def day_only_a_def)

text \<open>
  Claim C1 (evaluation at the failing input). With \<^verbatim>\<open>days = 1\<close>, two hours a day and
  two candidates of which A fits and B does not, the loop appends day 1 and breaks, and
  line 165 appends the same day again: the itinerary has two DayPlans.
\<close>

theorem last_day_appended_twice:
  "build_greedy_itinerary net_ten_then_hundred
     [example_poi ''A'' 2, example_poi ''B'' 1] 0 0 1 2 ''foot''
   = Inr \<lparr>it_days = [day_only_a, day_only_a]\<rparr>
   \<and> length [day_only_a, day_only_a] = 2"
  by (simp add: build_first_fits_example)

lemma build_nothing_fits_example:
  "build_greedy_itinerary net_one_minute
     [example_poi ''A'' 1, example_poi ''B'' 1] 0 0 2 1 ''foot''
   = Inr \<lparr>it_days =
        [\<lparr>day = 1, items = [], minutes_left = 60\<rparr>,
         \<lparr>day = 2, items = [], minutes_left = 60\<rparr>]\<rparr>"
  by (simp add: run_simps net_one_minute_def)

lemma build_nothing_fits_one_day:
  "build_greedy_itinerary net_one_minute
     [example_poi ''A'' 1, example_poi ''B'' 1] 0 0 1 1 ''foot''
   = Inr \<lparr>it_days = [\<lparr>day = 1, items = [], minutes_left = 60\<rparr>]\<rparr>"
  by (simp add: run_simps net_one_minute_def)

text \<open>
  Claim C2 (evaluation at the failing input). With one hour a day, two days and two
  candidates that each need 61 minutes, both candidates are dropped and the itinerary
  holds two DayPlans without a visit; with one day it holds one.
\<close>

theorem empty_days_appended:
  "build_greedy_itinerary net_one_minute
     [example_poi ''A'' 1, example_poi ''B'' 1] 0 0 2 1 ''foot''
   = Inr \<lparr>it_days =
        [\<lparr>day = 1, items = [], minutes_left = 60\<rparr>,
         \<lparr>day = 2, items = [], minutes_left = 60\<rparr>]\<rparr>
   \<and> build_greedy_itinerary net_one_minute
     [example_poi ''A'' 1, example_poi ''B'' 1] 0 0 1 1 ''foot''
   = Inr \<lparr>it_days = [\<lparr>day = 1, items = [], minutes_left = 60\<rparr>]\<rparr>"
  by (simp add: build_nothing_fits_example build_nothing_fits_one_day)

end
